theory Spec2Isabelle
  imports Main "HOL-Library.Word"
begin

section \<open>The order repository and the store behind it\<close>

text \<open>
  The repository (package \<open>order\<close>) keeps orders in a Redis server that it reaches
  through the go-redis v9 client: a string key \<open>order:<id>\<close> per order, holding the
  order's JSON text, and one set, \<open>orders\<close>, of those keys. The five operations
  \<open>Insert\<close>, \<open>FindByID\<close>, \<open>DeleteByID\<close>, \<open>Update\<close> and \<open>FindAll\<close> are
  embedded below as functions that take the state of the server and return the value the
  Go function returns together with the state afterwards.
\<close>

subsection \<open>Orders and their storage keys\<close>

type_synonym uint64 = "64 word"

text \<open>
  Modelled from the spec: the declaration of \<open>model.Order\<close> is not among the sources.
  The spec gives an order a numeric \<open>OrderID\<close> and treats every other field as opaque
  payload, so the payload is a type parameter here.
\<close>

record 'p Order =
  OrderID :: uint64
  payload :: 'p

text \<open>\<open>fmt.Sprintf("%d", n)\<close> for an unsigned \<open>n\<close>: the decimal digits, most
  significant first, no sign and no leading zero.\<close>

definition digit :: "nat \<Rightarrow> char" where
  "digit d = ''0123456789'' ! (d mod 10)"

fun decimal :: "nat \<Rightarrow> string" where
  "decimal n = (if n < 10 then [digit n] else decimal (n div 10) @ [digit (n mod 10)])"

declare decimal.simps [simp del]

definition orderIDKey :: "uint64 \<Rightarrow> string" where
  "orderIDKey orderID = ''order:'' @ decimal (unat orderID)"

subsection \<open>Errors\<close>

text \<open>
  The errors go-redis hands back: \<open>redis.Nil\<close> (a nil reply), the server's
  \<open>WRONGTYPE\<close> reply, and a failed round trip (connection lost, context cancelled or
  past its deadline).
\<close>

datatype redis_error = RedisNil | WrongType | Transport

text \<open>
  The repository's own errors: the sentinel \<open>ErrNotExist\<close>, and
  \<open>fmt.Errorf("<message>: %w", err)\<close>, which keeps the wrapped cause. The cause is an
  error of \<open>encoding/json\<close> (its text) or one of go-redis.
\<close>

datatype cause = JsonError string | RedisError redis_error

datatype error = ErrNotExist | Errorf string cause

text \<open>A Go function either returns or panics; \<open>FindAll\<close> is the one operation with
  an unchecked type assertion, so its result distinguishes the three ways it can end.\<close>

datatype 'a outcome = Panics string | Fails error | Returns 'a

subsection \<open>The Redis server as the client sees it\<close>

text \<open>
  One keyspace: a key holds a string or a set (the two Redis types the repository
  uses). The members of a set are kept as a duplicate-free list. A server never keeps an
  empty set: removing the last member removes the key.

  \<open>SSCAN\<close> promises little about a single call: which members come back, how many and
  the next cursor depend on the set's internal encoding. That choice is the field
  \<open>scan\<close>: from the members, the cursor and the count to one page of members and the
  next cursor. \<open>net\<close> scripts the coming round trips, \<open>True\<close> for one that succeeds;
  past the end of the script every round trip succeeds.
\<close>

datatype rvalue = RString string | RSet "string list"

type_synonym keyspace = "string \<rightharpoonup> rvalue"

record server =
  keyspace :: keyspace
  scan :: "string list \<Rightarrow> uint64 \<Rightarrow> nat \<Rightarrow> string list \<times> uint64"
  net :: "bool list"

type_synonym RedisRepository = server

definition roundtrip :: "server \<Rightarrow> bool \<times> server" where
  "roundtrip r = (case net r of [] \<Rightarrow> (True, r) | ok # rest \<Rightarrow> (ok, r\<lparr>net := rest\<rparr>))"

text \<open>
  The commands the repository queues on a transaction pipeline, and what each does on the
  server when the transaction runs:
  \<^item> \<open>SETNX key v\<close> sets the key only if it does not exist; its reply is 1 or 0, never an
    error;
  \<^item> \<open>SADD key m\<close> adds a member, creating the set; on a key that holds a string it
    replies \<open>WRONGTYPE\<close>;
  \<^item> \<open>DEL key\<close> removes the key, whatever it holds; its reply is the number of keys
    removed, never an error;
  \<^item> \<open>SREM key m\<close> removes a member.
\<close>

datatype cmd = SetNX string string | SAdd string string | Del string | SRem string string

fun apply_cmd :: "cmd \<Rightarrow> keyspace \<Rightarrow> redis_error option \<times> keyspace" where
  "apply_cmd (SetNX k v) ks =
     (None, (case ks k of None \<Rightarrow> ks(k \<mapsto> RString v) | Some _ \<Rightarrow> ks))"
| "apply_cmd (SAdd k m) ks =
     (case ks k of
        None \<Rightarrow> (None, ks(k \<mapsto> RSet [m]))
      | Some (RSet ms) \<Rightarrow> (None, if m \<in> set ms then ks else ks(k \<mapsto> RSet (ms @ [m])))
      | Some (RString _) \<Rightarrow> (Some WrongType, ks))"
| "apply_cmd (Del k) ks = (None, ks(k := None))"
| "apply_cmd (SRem k m) ks =
     (case ks k of
        None \<Rightarrow> (None, ks)
      | Some (RSet ms) \<Rightarrow>
          (None, if removeAll m ms = [] then ks(k := None) else ks(k \<mapsto> RSet (removeAll m ms)))
      | Some (RString _) \<Rightarrow> (Some WrongType, ks))"

text \<open>
  Inside \<open>MULTI\<close>/\<open>EXEC\<close> the server runs the queued commands one after the other; a
  command that fails does not undo the ones before it, nor stop the ones after it. The
  client reports the first error among the replies.
\<close>

fun run_cmds :: "cmd list \<Rightarrow> keyspace \<Rightarrow> redis_error option \<times> keyspace" where
  "run_cmds [] ks = (None, ks)"
| "run_cmds (c # cs) ks =
     (case apply_cmd c ks of
        (e, ks') \<Rightarrow>
          (case run_cmds cs ks' of
             (e', ks'') \<Rightarrow> ((case e of Some x \<Rightarrow> Some x | None \<Rightarrow> e'), ks'')))"

subsection \<open>The go-redis client\<close>

text \<open>
  \<open>Client.TxPipeline()\<close> gives an empty queue. A command method called on the pipeline
  only appends the command: nothing is sent, and the \<open>Err()\<close> of a command that has not
  run is \<open>nil\<close>. \<open>queue\<close> returns that \<open>Err()\<close> and the longer queue.
  \<open>Discard\<close> empties the queue; a pipeline that is dropped without \<open>Exec\<close> has sent
  nothing.
\<close>

type_synonym pipeline = "cmd list"

definition TxPipeline :: pipeline where
  "TxPipeline = []"

definition queue :: "pipeline \<Rightarrow> cmd \<Rightarrow> redis_error option \<times> pipeline" where
  "queue transaction c = (None, transaction @ [c])"

text \<open>
  \<open>Exec\<close> sends the queue in one round trip, wrapped in \<open>MULTI\<close>/\<open>EXEC\<close>, and returns
  the first error; an empty queue sends nothing. A failed round trip is taken to fail
  before the server has seen the transaction.
\<close>

definition Exec :: "server \<Rightarrow> pipeline \<Rightarrow> redis_error option \<times> server" where
  "Exec r transaction =
     (if transaction = [] then (None, r)
      else (case roundtrip r of
              (ok, r') \<Rightarrow>
                if \<not> ok then (Some Transport, r')
                else (case run_cmds transaction (keyspace r') of
                        (e, ks') \<Rightarrow> (e, r'\<lparr>keyspace := ks'\<rparr>))))"

text \<open>
  The commands sent at once. \<open>Get(...).Result()\<close> is the string, \<open>redis.Nil\<close> for a key
  that does not exist, \<open>WRONGTYPE\<close> for a key that holds a set.
\<close>

definition Get :: "server \<Rightarrow> string \<Rightarrow> (redis_error + string) \<times> server" where
  "Get r key =
     (case roundtrip r of
        (ok, r') \<Rightarrow>
          if \<not> ok then (Inl Transport, r')
          else (case keyspace r' key of
                  None \<Rightarrow> (Inl RedisNil, r')
                | Some (RString v) \<Rightarrow> (Inr v, r')
                | Some (RSet _) \<Rightarrow> (Inl WrongType, r')))"

text \<open>
  \<open>SetXX(ctx, key, v, 0)\<close> sends \<open>SET key v XX\<close> and is a \<open>BoolCmd\<close>. The server
  replies nil when the key does not exist, and the command's reader turns that nil into
  the value \<open>false\<close> with no error: \<open>Err()\<close> is \<open>nil\<close> whether or not the key was there.
  \<open>SET\<close> replaces whatever the key held.
\<close>

definition SetXX :: "server \<Rightarrow> string \<Rightarrow> string \<Rightarrow> redis_error option \<times> server" where
  "SetXX r key v =
     (case roundtrip r of
        (ok, r') \<Rightarrow>
          if \<not> ok then (Some Transport, r')
          else (case keyspace r' key of
                  None \<Rightarrow> (None, r')
                | Some _ \<Rightarrow> (None, r'\<lparr>keyspace := (keyspace r')(key \<mapsto> RString v)\<rparr>)))"

text \<open>
  \<open>SScan(ctx, key, cursor, "*", count)\<close> sends \<open>COUNT count\<close> only when \<open>count > 0\<close>;
  without it the server scans with its default count, 10. The pattern \<open>*\<close> matches every
  member. A key that does not exist scans as an empty set with cursor 0. Whatever page the
  server chooses, it holds members of the set only.
\<close>

definition SScan ::
  "server \<Rightarrow> string \<Rightarrow> uint64 \<Rightarrow> int \<Rightarrow> (redis_error + string list \<times> uint64) \<times> server" where
  "SScan r key cursor count =
     (case roundtrip r of
        (ok, r') \<Rightarrow>
          if \<not> ok then (Inl Transport, r')
          else (case keyspace r' key of
                  None \<Rightarrow> (Inr ([], 0), r')
                | Some (RString _) \<Rightarrow> (Inl WrongType, r')
                | Some (RSet ms) \<Rightarrow>
                    (case scan r' ms cursor (if 0 < count then nat count else 10) of
                       (page, next) \<Rightarrow> (Inr (filter (\<lambda>m. m \<in> set ms) page, next), r'))))"

text \<open>\<open>MGet(ctx, keys...).Result()\<close> is one entry per key, in order: the string, or nil
  for a key that does not exist or does not hold a string.\<close>

definition MGet :: "server \<Rightarrow> string list \<Rightarrow> (redis_error + string option list) \<times> server" where
  "MGet r keys =
     (case roundtrip r of
        (ok, r') \<Rightarrow>
          if \<not> ok then (Inl Transport, r')
          else (Inr (map (\<lambda>k. case keyspace r' k of Some (RString v) \<Rightarrow> Some v | _ \<Rightarrow> None) keys),
                r'))"

subsection \<open>The repository\<close>

text \<open>
  \<open>json.Marshal\<close> and \<open>json.Unmarshal\<close> on \<open>model.Order\<close> are parameters of the
  operations that call them: \<open>marshal\<close> returns the error text or the bytes,
  \<open>unmarshal\<close> the error text or the order.
\<close>

definition Insert ::
  "('p Order \<Rightarrow> string + string) \<Rightarrow> RedisRepository \<Rightarrow> 'p Order \<Rightarrow> error option \<times> RedisRepository" where
  "Insert marshal r order =
     (case marshal order of
        Inl err \<Rightarrow> (Some (Errorf ''failed to encode order'' (JsonError err)), r)
      | Inr data \<Rightarrow>
          (let key = orderIDKey (OrderID order) in
           case queue TxPipeline (SetNX key data) of
             (Some err, transaction) \<Rightarrow>
               (Some (Errorf ''failed to insert order'' (RedisError err)), r)
           | (None, transaction) \<Rightarrow>
               (case queue transaction (SAdd ''orders'' key) of
                  (Some err, transaction) \<Rightarrow>
                    (Some (Errorf ''failed to add orders set'' (RedisError err)), r)
                | (None, transaction) \<Rightarrow>
                    (case Exec r transaction of
                       (Some err, r') \<Rightarrow>
                         (Some (Errorf ''failed to execute transaction'' (RedisError err)), r')
                     | (None, r') \<Rightarrow> (None, r')))))"

definition FindByID ::
  "(string \<Rightarrow> string + 'p Order) \<Rightarrow> RedisRepository \<Rightarrow> uint64 \<Rightarrow> (error + 'p Order) \<times> RedisRepository" where
  "FindByID unmarshal r id' =
     (let key = orderIDKey id' in
      case Get r key of
        (Inl err, r') \<Rightarrow>
          if err = RedisNil then (Inl ErrNotExist, r')
          else (Inl (Errorf ''failed to get order'' (RedisError err)), r')
      | (Inr v, r') \<Rightarrow>
          (case unmarshal v of
             Inl err \<Rightarrow> (Inl (Errorf ''failed to decode order'' (JsonError err)), r')
           | Inr order \<Rightarrow> (Inr order, r')))"

text \<open>\<open>DeleteByID\<close> queues \<open>DEL\<close> and \<open>SREM\<close> on a transaction pipeline and returns;
  it has no call of \<open>Exec\<close>.\<close>

definition DeleteByID :: "RedisRepository \<Rightarrow> uint64 \<Rightarrow> error option \<times> RedisRepository" where
  "DeleteByID r id' =
     (let key = orderIDKey id' in
      case queue TxPipeline (Del key) of
        (Some err, transaction) \<Rightarrow>
          if err = RedisNil then (Some ErrNotExist, r)
          else (Some (Errorf ''failed to get order'' (RedisError err)), r)
      | (None, transaction) \<Rightarrow>
          (case queue transaction (SRem ''orders'' key) of
             (Some err, transaction) \<Rightarrow>
               (Some (Errorf ''failed to remove orders set'' (RedisError err)), r)
           | (None, transaction) \<Rightarrow> (None, r)))"

definition Update ::
  "('p Order \<Rightarrow> string + string) \<Rightarrow> RedisRepository \<Rightarrow> 'p Order \<Rightarrow> error option \<times> RedisRepository" where
  "Update marshal r order =
     (case marshal order of
        Inl err \<Rightarrow> (Some (Errorf ''failed to encode order'' (JsonError err)), r)
      | Inr data \<Rightarrow>
          (let key = orderIDKey (OrderID order) in
           case SetXX r key data of
             (Some err, r') \<Rightarrow>
               if err = RedisNil then (Some ErrNotExist, r')
               else (Some (Errorf ''failed to update order'' (RedisError err)), r')
           | (None, r') \<Rightarrow> (None, r')))"

record FindAllPage =
  Size :: uint64
  Offset :: uint64

record 'o FindResult =
  Orders :: "'o list"
  Cursor :: uint64

text \<open>The loop over the replies of \<open>MGet\<close>: \<open>x.(string)\<close> panics on a nil entry, a
  text that does not decode ends the loop with its error.\<close>

fun decode_all :: "(string \<Rightarrow> string + 'o) \<Rightarrow> string option list \<Rightarrow> 'o list outcome" where
  "decode_all unmarshal [] = Returns []"
| "decode_all unmarshal (x # xs) =
     (case x of
        None \<Rightarrow> Panics ''interface conversion: interface {} is nil, not string''
      | Some s \<Rightarrow>
          (case unmarshal s of
             Inl err \<Rightarrow> Fails (Errorf ''failed to decode json'' (JsonError err))
           | Inr order \<Rightarrow>
               (case decode_all unmarshal xs of
                  Returns orders \<Rightarrow> Returns (order # orders)
                | Fails e \<Rightarrow> Fails e
                | Panics m \<Rightarrow> Panics m)))"

text \<open>\<open>int64(page.Size)\<close> reads the 64 bits as a signed number.\<close>

definition FindAll ::
  "(string \<Rightarrow> string + 'o) \<Rightarrow> RedisRepository \<Rightarrow> FindAllPage \<Rightarrow> 'o FindResult outcome \<times> RedisRepository" where
  "FindAll unmarshal r page =
     (case SScan r ''orders'' (Offset page) (sint (Size page)) of
        (Inl err, r') \<Rightarrow> (Fails (Errorf ''failed to get order IDs'' (RedisError err)), r')
      | (Inr (keys, cursor), r') \<Rightarrow>
          if length keys = 0 then (Returns \<lparr>Orders = [], Cursor = 0\<rparr>, r')
          else (case MGet r' keys of
                  (Inl err, r'') \<Rightarrow> (Fails (Errorf ''failed to get orders'' (RedisError err)), r'')
                | (Inr xs, r'') \<Rightarrow>
                    (case decode_all unmarshal xs of
                       Returns orders \<Rightarrow> (Returns \<lparr>Orders = orders, Cursor = cursor\<rparr>, r'')
                     | Fails e \<Rightarrow> (Fails e, r'')
                     | Panics m \<Rightarrow> (Panics m, r''))))"

subsection \<open>The dual structure\<close>

text \<open>
  The members of the index set \<open>orders\<close>, and the invariant of the two structures: the
  storage key of an order is a member of the index set exactly when the key exists. A key
  \<open>orders\<close> that holds a string has no member; \<open>index_is_set\<close> says that the key holds a
  set, if it holds anything.
\<close>

definition index_members :: "keyspace \<Rightarrow> string set" where
  "index_members ks = (case ks ''orders'' of Some (RSet ms) \<Rightarrow> set ms | _ \<Rightarrow> {})"

definition index_is_set :: "keyspace \<Rightarrow> bool" where
  "index_is_set ks = (case ks ''orders'' of Some (RString _) \<Rightarrow> False | _ \<Rightarrow> True)"


subsection \<open>Reading decimals back\<close>

definition digit_value :: "char \<Rightarrow> nat" where
  "digit_value c = of_char c - 48"

definition undecimal :: "string \<Rightarrow> nat" where
  "undecimal s = foldl (\<lambda>n c. 10 * n + digit_value c) 0 s"

subsection \<open>Sample data\<close>

text \<open>
  Concrete orders, codecs and servers on which the operations are run below. The sample
  codec writes an order with a text payload as its decimal id, a comma and the payload;
  \<open>refusing_marshal\<close> is an encoder that fails. \<open>scan_whole\<close> is the reply of a server
  that keeps a small set in its compact encoding: the whole set in one page, cursor 0.
\<close>

definition is_digit :: "char \<Rightarrow> bool" where
  "is_digit c = (c \<in> set ''0123456789'')"

definition sample_marshal :: "string Order \<Rightarrow> string + string" where
  "sample_marshal order = Inr (decimal (unat (OrderID order)) @ CHR '','' # payload order)"

definition sample_unmarshal :: "string \<Rightarrow> string + string Order" where
  "sample_unmarshal s =
     (if takeWhile is_digit s = [] \<or> dropWhile is_digit s = [] then Inl ''unexpected end of input''
      else if hd (dropWhile is_digit s) \<noteq> CHR '','' then Inl ''invalid character''
      else Inr \<lparr>OrderID = of_nat (undecimal (takeWhile is_digit s)),
                payload = tl (dropWhile is_digit s)\<rparr>)"

definition refusing_marshal :: "string Order \<Rightarrow> string + string" where
  "refusing_marshal order = Inl ''json: unsupported value''"

definition scan_whole :: "string list \<Rightarrow> uint64 \<Rightarrow> nat \<Rightarrow> string list \<times> uint64" where
  "scan_whole ms cursor n = (ms, 0)"

text \<open>A page with no member and a cursor to go on from, as a server replies when the
  buckets it visited in a hash table were empty.\<close>

definition scan_sparse :: "string list \<Rightarrow> uint64 \<Rightarrow> nat \<Rightarrow> string list \<times> uint64" where
  "scan_sparse ms cursor n = ([], cursor + 1)"

definition tea :: "string Order" where
  "tea = \<lparr>OrderID = 1, payload = ''tea''\<rparr>"

definition coffee :: "string Order" where
  "coffee = \<lparr>OrderID = 1, payload = ''coffee''\<rparr>"


definition empty_store :: server where
  "empty_store = \<lparr>keyspace = Map.empty, scan = scan_whole, net = []\<rparr>"

text \<open>The server after \<open>Insert\<close> of \<open>tea\<close> into the empty one, and a server whose
  index names an order that has no entry.\<close>

definition tea_store :: server where
  "tea_store =
     \<lparr>keyspace = [''order:1'' \<mapsto> RString ''1,tea'', ''orders'' \<mapsto> RSet [''order:1'']],
      scan = scan_whole, net = []\<rparr>"

definition dangling_store :: server where
  "dangling_store =
     \<lparr>keyspace = [''orders'' \<mapsto> RSet [''order:1'']], scan = scan_whole, net = []\<rparr>"


definition sparse_store :: server where
  "sparse_store = tea_store\<lparr>scan := scan_sparse\<rparr>"

section \<open>Storage keys\<close>

text \<open>The decimal rendering can be read back, so distinct ids have distinct storage keys,
  and no storage key is the key of the index set.\<close>

lemma digit_value_digit: "d < 10 \<Longrightarrow> digit_value (digit d) = d"
proof -
  assume "d < 10"
  then have "d = 0 \<or> d = 1 \<or> d = 2 \<or> d = 3 \<or> d = 4 \<or> d = 5 \<or> d = 6 \<or> d = 7
    \<or> d = 8 \<or> d = 9"
    by arith
  then show ?thesis
    by (auto simp: digit_def digit_value_def)
qed

lemma undecimal_snoc: "undecimal (s @ [c]) = 10 * undecimal s + digit_value c"
  by (simp add: undecimal_def)

lemma undecimal_decimal: "undecimal (decimal n) = n"
proof (induction n rule: decimal.induct)
  case (1 n)
  show ?case
  proof (cases "n < 10")
    case True
    then show ?thesis
      by (subst decimal.simps) (simp add: undecimal_def digit_value_digit)
  next
    case False
    with 1 have "undecimal (decimal (n div 10)) = n div 10" by simp
    with False show ?thesis
      by (subst decimal.simps) (simp add: undecimal_snoc digit_value_digit)
  qed
qed

lemma decimal_inj: "decimal a = decimal b \<Longrightarrow> a = b"
  by (metis undecimal_decimal)

lemma orderIDKey_inj: "(orderIDKey a = orderIDKey b) = (a = b)"
  by (auto simp: orderIDKey_def word_unat_eq_iff dest!: decimal_inj)

lemma orderIDKey_not_index: "orderIDKey a \<noteq> ''orders''"
proof -
  have "decimal n \<noteq> ''s''" for n
  proof
    assume "decimal n = ''s''"
    then have "n = undecimal ''s''" by (metis undecimal_decimal)
    then have n: "n = 67" by (simp add: undecimal_def digit_value_def)
    have "decimal 67 = ''67''" by (simp add: decimal.simps digit_def)
    with n \<open>decimal n = ''s''\<close> show False by simp
  qed
  then show ?thesis by (simp add: orderIDKey_def)
qed

lemma index_not_orderIDKey: "''orders'' \<noteq> orderIDKey a"
  using orderIDKey_not_index [of a] by simp

lemma orderIDKey_1: "orderIDKey 1 = ''order:1''"
  by (simp add: orderIDKey_def decimal.simps digit_def)


section \<open>What each operation does to the keyspace\<close>


lemma Insert_Inr:
  "marshal order = Inr data \<Longrightarrow>
   Insert marshal r order =
     (case Exec r [SetNX (orderIDKey (OrderID order)) data, SAdd ''orders'' (orderIDKey (OrderID order))] of
        (Some err, r') \<Rightarrow> (Some (Errorf ''failed to execute transaction'' (RedisError err)), r')
      | (None, r') \<Rightarrow> (None, r'))"
  by (simp add: Insert_def queue_def TxPipeline_def Let_def)

lemma Insert_Inl:
  "marshal order = Inl err \<Longrightarrow>
   Insert marshal r order = (Some (Errorf ''failed to encode order'' (JsonError err)), r)"
  by (simp add: Insert_def)




lemma keyspace_Update_cases:
  "keyspace (snd (Update marshal r order)) = keyspace r \<or>
   (\<exists>data v. marshal order = Inr data \<and> keyspace r (orderIDKey (OrderID order)) = Some v \<and>
      keyspace (snd (Update marshal r order)) =
        (keyspace r)(orderIDKey (OrderID order) \<mapsto> RString data))"
  by (auto simp: Update_def SetXX_def roundtrip_def Let_def
      split: sum.split list.split option.split)

text \<open>The reply to \<open>SET ... XX\<close> on a key that does not exist is no error, so the branch
  of \<open>Update\<close> that returns \<open>ErrNotExist\<close> is never taken.\<close>

lemma Update_not_ErrNotExist: "fst (Update marshal r order) \<noteq> Some ErrNotExist"
  by (auto simp: Update_def SetXX_def roundtrip_def Let_def
      split: sum.split list.split option.split)











text \<open>On a key that exists \<open>Insert\<close> leaves the value, and the branch that returns
  \<open>failed to insert order\<close> is never taken: it tests the \<open>Err()\<close> of a queued
  command.\<close>

lemma Insert_on_existing_key:
  assumes "keyspace r (orderIDKey (OrderID order)) = Some v"
  shows "keyspace (snd (Insert marshal r order)) (orderIDKey (OrderID order)) = Some v \<and>
         (\<forall>c. fst (Insert marshal r order) \<noteq> Some (Errorf ''failed to insert order'' c)) \<and>
         (\<forall>data. marshal order = Inr data \<and> fst (roundtrip r) \<and> index_is_set (keyspace r) \<longrightarrow>
                  fst (Insert marshal r order) = None)"
proof (cases "marshal order")
  case (Inl e)
  with assms show ?thesis by (simp add: Insert_Inl)
next
  case (Inr data)
  show ?thesis
    using assms Inr
    by (auto simp: Insert_Inr [of marshal order data r] Exec_def roundtrip_def index_is_set_def
        orderIDKey_not_index index_not_orderIDKey
        split: list.splits prod.splits option.splits rvalue.splits if_splits)
qed


text \<open>The sample server with one order is what \<open>Insert\<close> makes of the empty one.\<close>

lemma tea_store_reached: "Insert sample_marshal empty_store tea = (None, tea_store)"
  by (simp add: Insert_def sample_marshal_def empty_store_def tea_def tea_store_def queue_def
      TxPipeline_def Exec_def roundtrip_def orderIDKey_1 Let_def decimal.simps digit_def)

section \<open>The claims\<close>

subsection \<open>C1: a second Insert under the same OrderID\<close>

text \<open>
  C1 asks that a second \<open>Insert\<close> under the same \<open>OrderID\<close> leaves the first value and
  fails with the insert error. The code at the server that holds order 1, given another
  order 1: the first value stays, and \<open>Insert\<close> returns \<open>nil\<close>.
\<close>

theorem Insert_twice_returns_nil:
  "keyspace tea_store (orderIDKey (OrderID coffee)) = Some (RString ''1,tea'') \<and>
   sample_marshal coffee = Inr ''1,coffee'' \<and>
   Insert sample_marshal tea_store coffee = (None, tea_store)"
  by (simp add: Insert_def sample_marshal_def coffee_def tea_store_def orderIDKey_1 queue_def
      TxPipeline_def Exec_def roundtrip_def decimal.simps digit_def Let_def)

subsection \<open>C2: DeleteByID of a stored order\<close>

text \<open>
  C2 asks that after \<open>DeleteByID\<close> has returned \<open>nil\<close> the order is gone. The code at
  the server that holds order 1: \<open>DeleteByID\<close> returns \<open>nil\<close>, the server is unchanged,
  and \<open>FindByID\<close> and \<open>FindAll\<close> still return the order.
\<close>

theorem DeleteByID_leaves_order:
  "DeleteByID tea_store 1 = (None, tea_store) \<and>
   FindByID sample_unmarshal tea_store 1 = (Inr tea, tea_store) \<and>
   FindAll sample_unmarshal tea_store \<lparr>Size = 10, Offset = 0\<rparr> =
     (Returns \<lparr>Orders = [tea], Cursor = 0\<rparr>, tea_store)"
  by (simp add: DeleteByID_def queue_def TxPipeline_def FindByID_def Get_def FindAll_def SScan_def
      MGet_def scan_whole_def sample_unmarshal_def tea_def tea_store_def orderIDKey_1
      roundtrip_def is_digit_def undecimal_def digit_value_def Let_def)

subsection \<open>C3: DeleteByID of an absent order\<close>

text \<open>
  C3 asks for \<open>ErrNotExist\<close> when no order is stored under the id. The code at the empty
  server: \<open>DeleteByID\<close> returns \<open>nil\<close>.
\<close>

theorem DeleteByID_absent_returns_nil:
  "keyspace empty_store (orderIDKey 7) = None \<and> DeleteByID empty_store 7 = (None, empty_store)"
  by (simp add: DeleteByID_def queue_def TxPipeline_def empty_store_def Let_def)

subsection \<open>C4: FindAll over a dangling index member\<close>

text \<open>
  C4 asks that \<open>FindAll\<close> returns an error when the index names a key that has no entry.
  The code at such a server: the reply of \<open>MGet\<close> holds nil for that key, and the type
  assertion on it panics.
\<close>

theorem FindAll_dangling_panics:
  "keyspace dangling_store ''orders'' = Some (RSet [orderIDKey 1]) \<and>
   keyspace dangling_store (orderIDKey 1) = None \<and>
   fst (FindAll sample_unmarshal dangling_store \<lparr>Size = 10, Offset = 0\<rparr>) =
     Panics ''interface conversion: interface {} is nil, not string''"
  by (simp add: FindAll_def SScan_def MGet_def scan_whole_def dangling_store_def roundtrip_def
      orderIDKey_1)

subsection \<open>C5: the dual structure is preserved\<close>




subsection \<open>C6: Update of an absent order\<close>

text \<open>
  C6 asks for \<open>ErrNotExist\<close> from \<open>Update\<close> of an order that is not stored, and that
  the key is not created. The code at the empty server: the key is not created, and
  \<open>Update\<close> returns \<open>nil\<close>.
\<close>

theorem Update_absent_returns_nil:
  "keyspace empty_store (orderIDKey (OrderID tea)) = None \<and>
   Update sample_marshal empty_store tea = (None, empty_store)"
  by (simp add: Update_def SetXX_def sample_marshal_def empty_store_def tea_def roundtrip_def Let_def)

subsection \<open>C7: FindAll that scans nothing\<close>

text \<open>
  C7, as the code has it. \<open>FindAll\<close> against an index set with no member, when the round
  trip succeeds, and any call of \<open>FindAll\<close> whose scan returns no key, whatever cursor
  the scan returns with it, give the result with no order and cursor 0, and no error.
\<close>

theorem FindAll_nothing_scanned:
  "(fst (roundtrip r) \<and> index_is_set (keyspace r) \<and> index_members (keyspace r) = {} \<longrightarrow>
      fst (FindAll unmarshal r page) = Returns \<lparr>Orders = [], Cursor = 0\<rparr>) \<and>
   (SScan r ''orders'' (Offset page) (sint (Size page)) = (Inr ([], cursor), r') \<longrightarrow>
      FindAll unmarshal r page = (Returns \<lparr>Orders = [], Cursor = 0\<rparr>, r'))"
proof -
  have "fst (FindAll unmarshal r page) = Returns \<lparr>Orders = [], Cursor = 0\<rparr>"
    if "fst (roundtrip r)" and "index_is_set (keyspace r)" and "index_members (keyspace r) = {}"
    using that
    by (auto simp: FindAll_def SScan_def roundtrip_def index_is_set_def index_members_def
        split: list.splits option.splits rvalue.splits prod.splits)
  moreover have "FindAll unmarshal r page = (Returns \<lparr>Orders = [], Cursor = 0\<rparr>, r')"
    if "SScan r ''orders'' (Offset page) (sint (Size page)) = (Inr ([], cursor), r')"
    using that by (simp add: FindAll_def)
  ultimately show ?thesis by blast
qed

theorem FindAll_nothing_scanned_witness:
  "fst (roundtrip empty_store) \<and> index_is_set (keyspace empty_store) \<and>
   index_members (keyspace empty_store) = {} \<and>
   fst (FindAll sample_unmarshal empty_store \<lparr>Size = 10, Offset = 0\<rparr>) =
     Returns \<lparr>Orders = [], Cursor = 0\<rparr> \<and>
   SScan sparse_store ''orders'' 4 3 = (Inr ([], 5), sparse_store) \<and>
   FindAll sample_unmarshal sparse_store \<lparr>Size = 3, Offset = 4\<rparr> =
     (Returns \<lparr>Orders = [], Cursor = 0\<rparr>, sparse_store)"
proof -
  have a: "fst (roundtrip empty_store) \<and> index_is_set (keyspace empty_store) \<and>
      index_members (keyspace empty_store) = {}"
    by (simp add: roundtrip_def empty_store_def index_is_set_def index_members_def)
  have b: "SScan sparse_store ''orders'' (Offset \<lparr>Size = 3, Offset = 4\<rparr>)
      (sint (Size \<lparr>Size = 3, Offset = 4\<rparr>)) = (Inr ([], 5), sparse_store)"
    by (simp add: SScan_def sparse_store_def tea_store_def scan_sparse_def roundtrip_def)
  from FindAll_nothing_scanned [where r = empty_store and page = "\<lparr>Size = 10, Offset = 0\<rparr>"
      and unmarshal = sample_unmarshal]
    FindAll_nothing_scanned [where r = sparse_store and page = "\<lparr>Size = 3, Offset = 4\<rparr>"
      and cursor = 5 and r' = sparse_store and unmarshal = sample_unmarshal]
    a b
  show ?thesis by simp
qed

text \<open>The claim as stated also promises the empty result for a page of size 0. With size
  0 the scan runs with the server's default count: on the server that holds order 1,
  \<open>FindAll\<close> returns that order.\<close>

theorem FindAll_Size_0_counterexample:
  "Size \<lparr>Size = 0, Offset = 0\<rparr> = 0 \<and>
   FindAll sample_unmarshal tea_store \<lparr>Size = 0, Offset = 0\<rparr> =
     (Returns \<lparr>Orders = [tea], Cursor = 0\<rparr>, tea_store) \<and>
   Returns \<lparr>Orders = [tea], Cursor = 0\<rparr> \<noteq> Returns \<lparr>Orders = [], Cursor = 0\<rparr>"
  by (simp add: FindAll_def SScan_def MGet_def scan_whole_def sample_unmarshal_def tea_def
      tea_store_def roundtrip_def is_digit_def undecimal_def digit_value_def)

subsection \<open>C9: Update writes under the order's own key only\<close>

text \<open>
  C9. \<open>Update\<close> never changes which keys exist; every key other than the storage key
  \<open>order:<id>\<close> of the order it is given keeps its value, so the entry of every other
  order and the index set stay as they are; and when the key exists and the round trip
  succeeds, the new text is written under that same key.
\<close>

theorem Update_touches_one_key:
  "dom (keyspace (snd (Update marshal r order))) = dom (keyspace r) \<and>
   (\<forall>k. k \<noteq> orderIDKey (OrderID order) \<longrightarrow>
        keyspace (snd (Update marshal r order)) k = keyspace r k) \<and>
   (\<forall>i. i \<noteq> OrderID order \<longrightarrow>
        keyspace (snd (Update marshal r order)) (orderIDKey i) = keyspace r (orderIDKey i)) \<and>
   keyspace (snd (Update marshal r order)) ''orders'' = keyspace r ''orders'' \<and>
   (\<forall>data. marshal order = Inr data \<and> fst (roundtrip r) \<and>
        keyspace r (orderIDKey (OrderID order)) \<noteq> None \<longrightarrow>
        fst (Update marshal r order) = None \<and>
        keyspace (snd (Update marshal r order)) (orderIDKey (OrderID order)) = Some (RString data))"
proof -
  let ?key = "orderIDKey (OrderID order)"
  let ?ks' = "keyspace (snd (Update marshal r order))"
  have frame: "dom ?ks' = dom (keyspace r) \<and> (\<forall>k. k \<noteq> ?key \<longrightarrow> ?ks' k = keyspace r k)"
    using keyspace_Update_cases [of marshal r order] by (auto split: if_splits)
  then have others: "\<forall>i. i \<noteq> OrderID order \<longrightarrow> ?ks' (orderIDKey i) = keyspace r (orderIDKey i)"
    by (simp add: orderIDKey_inj)
  from frame have idx: "?ks' ''orders'' = keyspace r ''orders''"
    by (simp add: index_not_orderIDKey)
  have written: "fst (Update marshal r order) = None \<and> ?ks' ?key = Some (RString data)"
    if "marshal order = Inr data" and "fst (roundtrip r)" and "keyspace r ?key \<noteq> None" for data
    using that
    by (auto simp: Update_def SetXX_def roundtrip_def Let_def split: list.splits)
  from frame others idx written show ?thesis by blast
qed

theorem Update_touches_one_key_witness:
  "keyspace (snd (Update sample_marshal tea_store coffee)) =
     [''order:1'' \<mapsto> RString ''1,coffee'', ''orders'' \<mapsto> RSet [''order:1'']] \<and>
   dom (keyspace (snd (Update sample_marshal tea_store coffee))) = dom (keyspace tea_store) \<and>
   ''orders'' \<noteq> orderIDKey (OrderID coffee) \<and>
   keyspace (snd (Update sample_marshal tea_store coffee)) ''orders'' = keyspace tea_store ''orders'' \<and>
   sample_marshal coffee = Inr ''1,coffee'' \<and> fst (roundtrip tea_store) \<and>
   keyspace tea_store (orderIDKey (OrderID coffee)) \<noteq> None \<and>
   fst (Update sample_marshal tea_store coffee) = None \<and>
   keyspace (snd (Update sample_marshal tea_store coffee)) (orderIDKey (OrderID coffee)) =
     Some (RString ''1,coffee'')"
proof -
  have m: "sample_marshal coffee = Inr ''1,coffee''"
    by (simp add: sample_marshal_def coffee_def decimal.simps digit_def)
  have ok: "fst (roundtrip tea_store) \<and> keyspace tea_store (orderIDKey (OrderID coffee)) \<noteq> None \<and>
      ''orders'' \<noteq> orderIDKey (OrderID coffee)"
    by (simp add: roundtrip_def tea_store_def coffee_def orderIDKey_1)
  have ks: "keyspace (snd (Update sample_marshal tea_store coffee)) =
     [''order:1'' \<mapsto> RString ''1,coffee'', ''orders'' \<mapsto> RSet [''order:1'']]"
    by (auto simp: Update_def SetXX_def sample_marshal_def tea_store_def coffee_def roundtrip_def
        orderIDKey_1 decimal.simps digit_def Let_def)
  from Update_touches_one_key [of sample_marshal tea_store coffee] m ok ks show ?thesis
    by blast
qed

subsection \<open>C10: an order that does not encode\<close>

text \<open>
  C10. When the order does not encode, \<open>Insert\<close> and \<open>Update\<close> return the encoding
  error and the server is exactly as before: no key, no member of the index set and no
  round trip is used up.
\<close>

theorem encode_failure_sends_nothing:
  assumes "marshal order = Inl err"
  shows "Insert marshal r order = (Some (Errorf ''failed to encode order'' (JsonError err)), r) \<and>
         Update marshal r order = (Some (Errorf ''failed to encode order'' (JsonError err)), r)"
  using assms by (simp add: Insert_def Update_def)

theorem encode_failure_sends_nothing_witness:
  "refusing_marshal tea = Inl ''json: unsupported value'' \<and>
   Insert refusing_marshal tea_store tea =
     (Some (Errorf ''failed to encode order'' (JsonError ''json: unsupported value'')), tea_store) \<and>
   Update refusing_marshal tea_store tea =
     (Some (Errorf ''failed to encode order'' (JsonError ''json: unsupported value'')), tea_store)"
proof -
  have h: "refusing_marshal tea = Inl ''json: unsupported value''"
    by (simp add: refusing_marshal_def)
  from encode_failure_sends_nothing [of refusing_marshal tea "''json: unsupported value''" tea_store, OF h] h
  show ?thesis by simp
qed

end
